theory Spec2Isabelle
  imports Main
begin

section \<open>JSON values and \<^verbatim>\<open>JSON.parse\<close>\<close>

text \<open>
  Text is modelled by its UTF-8 bytes (\<^typ>\<open>string\<close>). A number keeps its lexeme.
  An object keeps its members in source order; a later duplicate key overrides an earlier one.
\<close>

datatype json =
    JNull
  | JBool bool
  | JNum string
  | JStr string
  | JArr "json list"
  | JObj "(string \<times> json) list"

definition is_json_ws :: "char \<Rightarrow> bool" where
  "is_json_ws c = (c = CHR 0x20 \<or> c = CHR 0x09 \<or> c = CHR 0x0A \<or> c = CHR 0x0D)"

fun skip_ws :: "string \<Rightarrow> string" where
  "skip_ws [] = []"
| "skip_ws (c # cs) = (if is_json_ws c then skip_ws cs else c # cs)"

definition is_digit :: "char \<Rightarrow> bool" where
  "is_digit c = (48 \<le> (of_char c :: nat) \<and> (of_char c :: nat) \<le> 57)"

definition hex_val :: "char \<Rightarrow> nat option" where
  "hex_val c =
     (let n = (of_char c :: nat) in
      if 48 \<le> n \<and> n \<le> 57 then Some (n - 48)
      else if 97 \<le> n \<and> n \<le> 102 then Some (n - 87)
      else if 65 \<le> n \<and> n \<le> 70 then Some (n - 55)
      else None)"

definition hex4 :: "char \<Rightarrow> char \<Rightarrow> char \<Rightarrow> char \<Rightarrow> nat option" where
  "hex4 a b c d =
     (case (hex_val a, hex_val b, hex_val c, hex_val d) of
        (Some w, Some x, Some y, Some z) \<Rightarrow> Some (((w * 16 + x) * 16 + y) * 16 + z)
      | _ \<Rightarrow> None)"

text \<open>The UTF-8 bytes of a code point.\<close>

definition utf8 :: "nat \<Rightarrow> string" where
  "utf8 n =
     (if n < 0x80 then [char_of n]
      else if n < 0x800 then [char_of (0xC0 + n div 64), char_of (0x80 + n mod 64)]
      else if n < 0x10000 then
        [char_of (0xE0 + n div 4096), char_of (0x80 + (n div 64) mod 64), char_of (0x80 + n mod 64)]
      else
        [char_of (0xF0 + n div 262144), char_of (0x80 + (n div 4096) mod 64),
         char_of (0x80 + (n div 64) mod 64), char_of (0x80 + n mod 64)])"

text \<open>
  The pieces of a string literal: a byte taken as it stands, or the UTF-16 code unit of a
  \<^verbatim>\<open>\uXXXX\<close> escape.
\<close>

datatype piece = Byte char | Unit nat

definition escape_char :: "char \<Rightarrow> char option" where
  "escape_char e =
     (if e = CHR 0x22 then Some (CHR 0x22)
      else if e = CHR 0x5C then Some (CHR 0x5C)
      else if e = CHR ''/'' then Some (CHR ''/'')
      else if e = CHR ''b'' then Some (CHR 0x08)
      else if e = CHR ''f'' then Some (CHR 0x0C)
      else if e = CHR ''n'' then Some (CHR 0x0A)
      else if e = CHR ''r'' then Some (CHR 0x0D)
      else if e = CHR ''t'' then Some (CHR 0x09)
      else None)"

text \<open>The characters of a string literal after its opening quote, up to the closing quote.\<close>

fun parse_chars :: "string \<Rightarrow> (piece list \<times> string) option" where
  "parse_chars [] = None"
| "parse_chars (c # cs) =
     (if c = CHR 0x22 then Some ([], cs)
      else if c = CHR 0x5C then
        (case cs of
           [] \<Rightarrow> None
         | e # r \<Rightarrow>
             if e = CHR ''u'' then
               (case r of
                  h1 # h2 # h3 # h4 # r' \<Rightarrow>
                    (case hex4 h1 h2 h3 h4 of
                       None \<Rightarrow> None
                     | Some n \<Rightarrow> map_option (apfst (Cons (Unit n))) (parse_chars r'))
                | _ \<Rightarrow> None)
             else
               (case escape_char e of
                  None \<Rightarrow> None
                | Some x \<Rightarrow> map_option (apfst (Cons (Byte x))) (parse_chars r)))
      else if (of_char c :: nat) < 0x20 then None
      else map_option (apfst (Cons (Byte c))) (parse_chars cs))"

definition is_high :: "nat \<Rightarrow> bool" where
  "is_high n = (0xD800 \<le> n \<and> n \<le> 0xDBFF)"

definition is_low :: "nat \<Rightarrow> bool" where
  "is_low n = (0xDC00 \<le> n \<and> n \<le> 0xDFFF)"

text \<open>
  A surrogate pair is one code point; a lone surrogate leaves the process as U+FFFD.
\<close>

fun encode :: "piece list \<Rightarrow> string" where
  "encode [] = []"
| "encode (Byte c # ps) = c # encode ps"
| "encode (Unit h # Unit l # ps) =
     (if is_high h \<and> is_low l then utf8 (0x10000 + (h - 0xD800) * 0x400 + (l - 0xDC00)) @ encode ps
      else if is_high h \<or> is_low h then utf8 0xFFFD @ encode (Unit l # ps)
      else utf8 h @ encode (Unit l # ps))"
| "encode (Unit h # ps) =
     (if is_high h \<or> is_low h then utf8 0xFFFD @ encode ps else utf8 h @ encode ps)"

definition parse_string :: "string \<Rightarrow> (string \<times> string) option" where
  "parse_string s = map_option (apfst encode) (parse_chars s)"

text \<open>
  The number grammar: an optional minus, \<^verbatim>\<open>0\<close> or a digit string without leading zero, an
  optional fraction, an optional exponent.
\<close>

definition parse_number :: "string \<Rightarrow> (string \<times> string) option" where
  "parse_number s =
     (let sign = (if s \<noteq> [] \<and> hd s = CHR ''-'' then ''-'' else []);
          s1 = drop (length sign) s;
          ds = takeWhile is_digit s1;
          s2 = dropWhile is_digit s1
      in if ds = [] \<or> (1 < length ds \<and> hd ds = CHR ''0'') then None
         else
           (let has_frac = (s2 \<noteq> [] \<and> hd s2 = CHR ''.'');
                fd = (if has_frac then takeWhile is_digit (tl s2) else []);
                s3 = (if has_frac then dropWhile is_digit (tl s2) else s2)
            in if has_frac \<and> fd = [] then None
               else
                 (let has_exp = (s3 \<noteq> [] \<and> (hd s3 = CHR ''e'' \<or> hd s3 = CHR ''E''));
                      s4 = (if has_exp then tl s3 else s3);
                      esign = (if has_exp \<and> s4 \<noteq> [] \<and> (hd s4 = CHR ''+'' \<or> hd s4 = CHR ''-'')
                               then [hd s4] else []);
                      s5 = drop (length esign) s4;
                      ed = (if has_exp then takeWhile is_digit s5 else []);
                      s6 = (if has_exp then dropWhile is_digit s5 else s3)
                  in if has_exp \<and> ed = [] then None
                     else Some (sign @ ds @ (if has_frac then CHR ''.'' # fd else [])
                                @ (if has_exp then hd s3 # esign @ ed else []), s6))))"

definition starts_with :: "string \<Rightarrow> string \<Rightarrow> bool" where
  "starts_with s p = (take (length p) s = p)"

text \<open>
  Recursive descent. The first argument bounds the number of nested and chained calls; each
  second call at least consumes a character, so \<open>2 * length s + 2\<close> is never exhausted.
\<close>

fun parse_value :: "nat \<Rightarrow> string \<Rightarrow> (json \<times> string) option"
  and parse_elements :: "nat \<Rightarrow> string \<Rightarrow> (json list \<times> string) option"
  and parse_members :: "nat \<Rightarrow> string \<Rightarrow> ((string \<times> json) list \<times> string) option"
where
  "parse_value 0 s = None"
| "parse_value (Suc n) s =
     (case skip_ws s of
        [] \<Rightarrow> None
      | c # r \<Rightarrow>
          if c = CHR ''{'' then
            (case skip_ws r of
               [] \<Rightarrow> None
             | c' # r' \<Rightarrow>
                 if c' = CHR ''}'' then Some (JObj [], r')
                 else map_option (apfst JObj) (parse_members n r))
          else if c = CHR ''['' then
            (case skip_ws r of
               [] \<Rightarrow> None
             | c' # r' \<Rightarrow>
                 if c' = CHR '']'' then Some (JArr [], r')
                 else map_option (apfst JArr) (parse_elements n r))
          else if c = CHR 0x22 then map_option (apfst JStr) (parse_string r)
          else if starts_with (c # r) ''true'' then Some (JBool True, drop 4 (c # r))
          else if starts_with (c # r) ''false'' then Some (JBool False, drop 5 (c # r))
          else if starts_with (c # r) ''null'' then Some (JNull, drop 4 (c # r))
          else if c = CHR ''-'' \<or> is_digit c then map_option (apfst JNum) (parse_number (c # r))
          else None)"
| "parse_elements 0 s = None"
| "parse_elements (Suc n) s =
     (case parse_value n s of
        None \<Rightarrow> None
      | Some (v, r) \<Rightarrow>
          (case skip_ws r of
             [] \<Rightarrow> None
           | c # r' \<Rightarrow>
               if c = CHR '','' then map_option (apfst (Cons v)) (parse_elements n r')
               else if c = CHR '']'' then Some ([v], r')
               else None))"
| "parse_members 0 s = None"
| "parse_members (Suc n) s =
     (case skip_ws s of
        [] \<Rightarrow> None
      | c # r \<Rightarrow>
          if c = CHR 0x22 then
            (case parse_string r of
               None \<Rightarrow> None
             | Some (k, r1) \<Rightarrow>
                 (case skip_ws r1 of
                    [] \<Rightarrow> None
                  | c1 # r2 \<Rightarrow>
                      if c1 = CHR '':'' then
                        (case parse_value n r2 of
                           None \<Rightarrow> None
                         | Some (v, r3) \<Rightarrow>
                             (case skip_ws r3 of
                                [] \<Rightarrow> None
                              | c3 # r4 \<Rightarrow>
                                  if c3 = CHR '','' then
                                    map_option (apfst (Cons (k, v))) (parse_members n r4)
                                  else if c3 = CHR ''}'' then Some ([(k, v)], r4)
                                  else None))
                      else None))
          else None)"

text \<open>\<^verbatim>\<open>JSON.parse(line)\<close>: \<open>None\<close> is the SyntaxError.\<close>

definition JSON_parse :: "string \<Rightarrow> json option" where
  "JSON_parse s =
     (case parse_value (2 * length s + 2) s of
        None \<Rightarrow> None
      | Some (v, r) \<Rightarrow> if skip_ws r = [] then Some v else None)"

section \<open>Property access and truthiness\<close>

text \<open>
  \<^verbatim>\<open>v.k\<close> for the keys \<^verbatim>\<open>message\<close> and \<^verbatim>\<open>content\<close>, which no prototype defines: a TypeError
  on \<^verbatim>\<open>null\<close> (the outer \<open>None\<close>), the member of an object if it has one, and
  \<^verbatim>\<open>undefined\<close> (the inner \<open>None\<close>) otherwise.
\<close>

fun get_prop :: "json \<Rightarrow> string \<Rightarrow> json option option" where
  "get_prop JNull k = None"
| "get_prop (JObj kvs) k = Some (map_of (rev kvs) k)"
| "get_prop v k = Some None"

text \<open>
  A number is falsy when it is zero. The lexeme \<open>-?I.FeX\<close> has the value \<open>D * 10 ^ k\<close> with
  \<open>D\<close> the digits of \<open>I\<close> and \<open>F\<close> and \<open>k\<close> the exponent less the length of \<open>F\<close>; read as a
  double, rounding to nearest, it is zero exactly when that value is at most \<open>2 ^ - 1075\<close>,
  half of the least positive double.
\<close>

definition digits_value :: "string \<Rightarrow> int" where
  "digits_value ds = foldl (\<lambda>a c. 10 * a + ((of_char c :: int) - 48)) 0 ds"

definition num_truthy :: "string \<Rightarrow> bool" where
  "num_truthy s =
     (let body = (if s \<noteq> [] \<and> hd s = CHR ''-'' then tl s else s);
          mant = takeWhile (\<lambda>c. c \<noteq> CHR ''e'' \<and> c \<noteq> CHR ''E'') body;
          expo = drop (length mant + 1) body;
          ip = takeWhile is_digit mant;
          fp = drop (length ip + 1) mant;
          D = digits_value (ip @ fp);
          X = digits_value (filter is_digit expo);
          k = (if expo \<noteq> [] \<and> hd expo = CHR ''-'' then - X else X) - int (length fp)
      in 0 < D \<and> (0 \<le> k \<or> 10 ^ nat (- k) < D * 2 ^ 1075))"

fun truthy :: "json \<Rightarrow> bool" where
  "truthy JNull = False"
| "truthy (JBool b) = b"
| "truthy (JNum s) = num_truthy s"
| "truthy (JStr s) = (s \<noteq> [])"
| "truthy (JArr vs) = True"
| "truthy (JObj kvs) = True"

section \<open>The streaming relay: \<^verbatim>\<open>POST /api/chat/stream\<close>, the stream's handlers\<close>

text \<open>\<^verbatim>\<open>s.split('\n')\<close>\<close>

fun split_nl :: "string \<Rightarrow> string list" where
  "split_nl [] = [[]]"
| "split_nl (c # cs) =
     (if c = CHR 0x0A then [] # split_nl cs
      else (case split_nl cs of [] \<Rightarrow> [[c]] | l # ls \<Rightarrow> (c # l) # ls))"

text \<open>
  \<^verbatim>\<open>line.trim()\<close> is the empty string, which is falsy, exactly when the line consists of
  white space and line terminators only: TAB, LF, VT, FF, CR, SP, and in UTF-8 the code points
  U+00A0, U+1680, U+2000 to U+200A, U+2028, U+2029, U+202F, U+205F, U+3000 and U+FEFF.
\<close>

definition is_ws1 :: "char \<Rightarrow> bool" where
  "is_ws1 c = (c = CHR 0x09 \<or> c = CHR 0x0A \<or> c = CHR 0x0B \<or> c = CHR 0x0C \<or> c = CHR 0x0D
               \<or> c = CHR 0x20)"

definition is_ws3 :: "char \<Rightarrow> char \<Rightarrow> char \<Rightarrow> bool" where
  "is_ws3 a b c =
     (if a = CHR 0xE1 then b = CHR 0x9A \<and> c = CHR 0x80
      else if a = CHR 0xE2 then
        (if b = CHR 0x80 then
           (0x80 \<le> (of_char c :: nat) \<and> (of_char c :: nat) \<le> 0x8A)
           \<or> c = CHR 0xA8 \<or> c = CHR 0xA9 \<or> c = CHR 0xAF
         else b = CHR 0x81 \<and> c = CHR 0x9F)
      else if a = CHR 0xE3 then b = CHR 0x80 \<and> c = CHR 0x80
      else a = CHR 0xEF \<and> b = CHR 0xBB \<and> c = CHR 0xBF)"

fun trim_empty :: "string \<Rightarrow> bool" where
  "trim_empty [] = True"
| "trim_empty (a # cs) =
     (if is_ws1 a then trim_empty cs
      else
        (case cs of
           [] \<Rightarrow> False
         | b # cs' \<Rightarrow>
             if a = CHR 0xC2 then b = CHR 0xA0 \<and> trim_empty cs'
             else (case cs' of [] \<Rightarrow> False | c # cs'' \<Rightarrow> is_ws3 a b c \<and> trim_empty cs'')))"

text \<open>
  One pass of the loop body on a parsed line:
  \<^verbatim>\<open>if (data.message && data.message.content) res.write(data.message.content)\<close>.
  \<^verbatim>\<open>res.write\<close> raises on a chunk that is not a string.
\<close>

datatype outcome = Wrote string | Nothing | Threw

definition frame :: "json \<Rightarrow> outcome" where
  "frame data =
     (case get_prop data ''message'' of
        None \<Rightarrow> Threw
      | Some None \<Rightarrow> Nothing
      | Some (Some m) \<Rightarrow>
          if truthy m then
            (case get_prop m ''content'' of
               None \<Rightarrow> Threw
             | Some None \<Rightarrow> Nothing
             | Some (Some c) \<Rightarrow>
                 if truthy c then (case c of JStr s \<Rightarrow> Wrote s | _ \<Rightarrow> Threw) else Nothing)
          else Nothing)"

text \<open>
  The \<^verbatim>\<open>for\<close> loop inside the \<^verbatim>\<open>try\<close>: the texts written, in order. A line that does not
  parse, or a frame that raises, is caught outside the loop, which ends there.
\<close>

fun process_lines :: "string list \<Rightarrow> string list" where
  "process_lines [] = []"
| "process_lines (line # lines) =
     (case JSON_parse line of
        None \<Rightarrow> []
      | Some data \<Rightarrow>
          (case frame data of
             Threw \<Rightarrow> []
           | Nothing \<Rightarrow> process_lines lines
           | Wrote s \<Rightarrow> s # process_lines lines))"

text \<open>
  \<^verbatim>\<open>chunk.toString()\<close>: the bytes of the chunk decoded as UTF-8, every ill-formed part
  becoming U+FFFD. Text being modelled by its UTF-8 bytes, a well-formed sequence stays as it
  is and an ill-formed part becomes the three bytes of U+FFFD. The decoder keeps the number of
  continuation bytes still needed, the bounds of the next one, and the bytes of the sequence
  seen so far; a byte out of bounds ends the sequence and is read again as a first byte.
\<close>

definition replacement :: string where
  "replacement = [CHR 0xEF, CHR 0xBF, CHR 0xBD]"

definition lead :: "nat \<Rightarrow> (nat \<times> nat \<times> nat) option" where
  "lead n =
     (if 0xC2 \<le> n \<and> n \<le> 0xDF then Some (1, 0x80, 0xBF)
      else if 0xE0 \<le> n \<and> n \<le> 0xEF then
        Some (2, if n = 0xE0 then 0xA0 else 0x80, if n = 0xED then 0x9F else 0xBF)
      else if 0xF0 \<le> n \<and> n \<le> 0xF4 then
        Some (3, if n = 0xF0 then 0x90 else 0x80, if n = 0xF4 then 0x8F else 0xBF)
      else None)"

fun decode :: "nat \<Rightarrow> nat \<Rightarrow> nat \<Rightarrow> string \<Rightarrow> string \<Rightarrow> string" where
  "decode needed lo hi seen [] = (if needed = 0 then [] else replacement)"
| "decode needed lo hi seen (b # bs) =
     (let n = (of_char b :: nat) in
      if 0 < needed \<and> lo \<le> n \<and> n \<le> hi then
        (if needed = 1 then seen @ [b] @ decode 0 0x80 0xBF [] bs
         else decode (needed - 1) 0x80 0xBF (seen @ [b]) bs)
      else
        (if 0 < needed then replacement else [])
        @ (if n < 0x80 then b # decode 0 0x80 0xBF [] bs
           else
             (case lead n of
                Some (k, l, h) \<Rightarrow> decode k l h [b] bs
              | None \<Rightarrow> replacement @ decode 0 0x80 0xBF [] bs)))"

definition toString :: "string \<Rightarrow> string" where
  "toString chunk = decode 0 0x80 0xBF [] chunk"

text \<open>The \<^verbatim>\<open>'data'\<close> handler on one chunk of bytes.\<close>

definition on_data :: "string \<Rightarrow> string list" where
  "on_data chunk =
     process_lines (filter (\<lambda>line. \<not> trim_empty line) (split_nl (toString chunk)))"

text \<open>
  An upstream body stream emits its chunks and then at most one of \<^verbatim>\<open>'end'\<close> and
  \<^verbatim>\<open>'error'\<close>; both handlers call \<^verbatim>\<open>res.end()\<close> and write nothing.
\<close>

datatype closing = On_end | On_error

record sink =
  written :: string
  ended :: bool

definition relay :: "string list \<Rightarrow> closing option \<Rightarrow> sink" where
  "relay chunks fin =
     \<lparr>written = concat (concat (map on_data chunks)),
      ended = (case fin of None \<Rightarrow> False | Some On_end \<Rightarrow> True | Some On_error \<Rightarrow> True)\<rparr>"

section \<open>Configuration, requests and the upstream\<close>

text \<open>
  \<^verbatim>\<open>MODEL_NAME\<close> and \<^verbatim>\<open>OLLAMA_BASE_URL\<close> are constants bound once from the environment.
\<close>

record config =
  MODEL_NAME :: string
  OLLAMA_BASE_URL :: string

definition SYSTEM_PROMPT :: string where
  "SYSTEM_PROMPT =
     ''You are Gemma3:1b, a helpful AI assistant. When responding, use markdown formatting to make your answers more readable.\<newline>'' @
     ''\<newline>'' @
     ''For text responses:\<newline>'' @
     ''- Use **bold** for emphasis\<newline>'' @
     ''- Use *italic* for subtle emphasis\<newline>'' @
     ''- Use headings (#, ##, ###) to structure longer responses\<newline>'' @
     ''- Use bullet points (- or *) for lists\<newline>'' @
     ''- Use numbered lists for steps\<newline>'' @
     ''- Use `code` for inline code and triple backticks with language specification for code blocks\<newline>'' @
     ''- Use tables for comparative data\<newline>'' @
     ''- Use > for blockquotes\<newline>'' @
     ''\<newline>'' @
     ''If the user provides images, you can reference them in your response. Describe what you see or answer questions about the images.\<newline>'' @
     ''\<newline>'' @
     ''Always format your responses properly for better readability.''"

text \<open>
  A request body, typed as the data model gives it. A field is \<open>None\<close> when the body does not
  have it; destructuring then puts the default \<^verbatim>\<open>[]\<close> for \<^verbatim>\<open>images\<close> and
  \<^verbatim>\<open>conversation_history\<close>.
\<close>

record image =
  img_name :: string
  img_type :: string
  img_data :: string

record turn =
  role :: string
  content :: string

record body =
  message :: "string option"
  images :: "image list option"
  conversation_history :: "turn list option"
  model :: "string option"

text \<open>\<^verbatim>\<open>x || ''\<close> and \<^verbatim>\<open>xs = []\<close> as a default.\<close>

definition or_empty :: "'a list option \<Rightarrow> 'a list" where
  "or_empty x = (case x of None \<Rightarrow> [] | Some v \<Rightarrow> v)"

text \<open>The error an axios call rejects with: \<^verbatim>\<open>error.code\<close>, \<^verbatim>\<open>error.response\<close>
  (status and data) and \<^verbatim>\<open>error.message\<close>.\<close>

record axios_error =
  err_code :: "string option"
  err_response :: "(nat \<times> json) option"
  err_message :: string

datatype 'a promise = Resolved 'a | Rejected axios_error

text \<open>What the handlers read of a successful non-streaming reply:
  \<^verbatim>\<open>response.data.message.content\<close> and \<^verbatim>\<open>response.data.usage\<close>.\<close>

record chat_reply =
  reply_content :: string
  reply_usage :: "json option"

text \<open>The calls a handler makes upstream, in order.\<close>

datatype upstream_call = GET string | POST string json

text \<open>A response: \<^verbatim>\<open>res.status(s).json(v)\<close>, or the chunked plain-text body of the relay.\<close>

datatype http_response = Json_response nat json | Chunked_response sink

text \<open>The decimal digits of a number, as a template literal prints \<^verbatim>\<open>images.length\<close>.\<close>

function show_nat :: "nat \<Rightarrow> string" where
  "show_nat n = (if n < 10 then [char_of (48 + n)] else show_nat (n div 10) @ [char_of (48 + n mod 10)])"
  by pat_completeness auto
termination
  by (relation "measure id") auto

declare show_nat.simps [simp del]

text \<open>\<^verbatim>\<open>s.includes(sub)\<close>\<close>

fun str_includes :: "string \<Rightarrow> string \<Rightarrow> bool" where
  "str_includes [] sub = (sub = [])"
| "str_includes (c # cs) sub = (starts_with (c # cs) sub \<or> str_includes cs sub)"

section \<open>Message composition\<close>

definition system_turn :: json where
  "system_turn = JObj [(''role'', JStr ''system''), (''content'', JStr SYSTEM_PROMPT)]"

text \<open>\<^verbatim>\<open>conversation_history.map(msg => ({role: msg.role, content: msg.content}))\<close>\<close>

definition history_turns :: "turn list \<Rightarrow> json list" where
  "history_turns h = map (\<lambda>msg. JObj [(''role'', JStr (role msg)), (''content'', JStr (content msg))]) h"

definition user_turn :: "json \<Rightarrow> json" where
  "user_turn c = JObj [(''role'', JStr ''user''), (''content'', c)]"

definition request_body :: "string \<Rightarrow> json list \<Rightarrow> bool \<Rightarrow> json" where
  "request_body m messages stream =
     JObj [(''model'', JStr m), (''messages'', JArr messages), (''stream'', JBool stream),
           (''options'', JObj [(''temperature'', JNum ''0.7''), (''top_p'', JNum ''0.9'')])]"

text \<open>The \<^verbatim>\<open>images.forEach\<close> of \<^verbatim>\<open>/api/chat\<close>, from the given index on.\<close>

fun image_lines :: "nat \<Rightarrow> image list \<Rightarrow> string" where
  "image_lines index [] = []"
| "image_lines index (img # imgs) =
     ''\<newline>Image '' @ show_nat (index + 1) @ '': '' @ img_name img @ '' ('' @ img_type img @ '')''
     @ image_lines (index + 1) imgs"

text \<open>\<^verbatim>\<open>userMessage\<close> of \<^verbatim>\<open>/api/chat\<close>.\<close>

definition chat_userMessage :: "string option \<Rightarrow> image list \<Rightarrow> string" where
  "chat_userMessage msg imgs =
     (let userMessage = or_empty msg in
      if 0 < length imgs then
        (if userMessage \<noteq> [] then
           userMessage @ ''\<newline>\<newline>[User attached '' @ show_nat (length imgs)
             @ '' image(s). Please respond accordingly.]''
         else
           ''[User attached '' @ show_nat (length imgs)
             @ '' image(s). Please describe or analyze these images.]'')
        @ image_lines 0 imgs
      else userMessage)"

text \<open>\<^verbatim>\<open>userMessage\<close> of \<^verbatim>\<open>/api/chat/stream\<close>.\<close>

definition stream_userMessage :: "string option \<Rightarrow> image list \<Rightarrow> string" where
  "stream_userMessage msg imgs =
     (let userMessage = or_empty msg in
      if 0 < length imgs then
        (if userMessage \<noteq> [] then
           userMessage @ ''\<newline>\<newline>[User attached '' @ show_nat (length imgs) @ '' image(s)]''
         else ''[User attached '' @ show_nat (length imgs) @ '' image(s)]'')
      else userMessage)"

text \<open>\<^verbatim>\<open>userMessage.content\<close> of \<^verbatim>\<open>/api/chat/multimodal\<close>: a list of parts.\<close>

definition multimodal_content :: "string option \<Rightarrow> image list \<Rightarrow> json list" where
  "multimodal_content msg imgs =
     (if or_empty msg \<noteq> [] then [JObj [(''type'', JStr ''text''), (''text'', JStr (or_empty msg))]]
      else [])
     @ map (\<lambda>img. JObj [(''type'', JStr ''image''),
                         (''source'', JStr (''data:'' @ img_type img @ '';base64,[image_data_here]''))])
         imgs"

section \<open>Request handlers\<close>

text \<open>
  Each handler gives the response and the upstream calls it made; the outcome of the one call
  it may make is an argument. Console output is left out.
\<close>

definition required :: json where
  "required = JObj [(''error'', JStr ''Message or images are required'')]"

definition GET_api_health :: "config \<Rightarrow> http_response \<times> upstream_call list" where
  "GET_api_health cfg =
     (Json_response 200
        (JObj [(''status'', JStr ''OK''), (''model'', JStr (MODEL_NAME cfg)),
               (''ollama_url'', JStr (OLLAMA_BASE_URL cfg)),
               (''features'', JArr [JStr ''chat'', JStr ''images'', JStr ''formatting''])]),
      [])"

definition usage_field :: "chat_reply \<Rightarrow> (string \<times> json) list" where
  "usage_field r = (case reply_usage r of None \<Rightarrow> [] | Some u \<Rightarrow> [(''usage'', u)])"

definition POST_api_chat ::
  "config \<Rightarrow> chat_reply promise \<Rightarrow> body \<Rightarrow> http_response \<times> upstream_call list" where
  "POST_api_chat cfg upstream b =
     (let imgs = or_empty (images b); history = or_empty (conversation_history b) in
      if or_empty (message b) = [] \<and> length imgs = 0 then (Json_response 400 required, [])
      else
        (let userMessage = chat_userMessage (message b) imgs;
             messages = system_turn # history_turns history @ [user_turn (JStr userMessage)];
             requestBody = request_body (MODEL_NAME cfg) messages False
         in
           ((case upstream of
               Resolved r \<Rightarrow>
                 Json_response 200
                   (JObj ([(''response'', JStr (reply_content r)), (''model'', JStr (MODEL_NAME cfg))]
                          @ usage_field r
                          @ [(''images_received'', JNum (show_nat (length imgs)))]))
             | Rejected e \<Rightarrow>
                 if err_code e = Some ''ECONNREFUSED'' then
                   Json_response 503
                     (JObj [(''error'', JStr ''Ollama is not running. Please start Ollama first.''),
                            (''details'', JStr ''Run: ollama serve'')])
                 else
                   (case err_response e of
                      Some (st, d) \<Rightarrow>
                        Json_response st (JObj [(''error'', JStr ''Ollama API error''), (''details'', d)])
                    | None \<Rightarrow>
                        Json_response 500
                          (JObj [(''error'', JStr ''Internal server error''),
                                 (''details'', JStr (err_message e))]))),
            [POST (OLLAMA_BASE_URL cfg @ ''/api/chat'') requestBody])))"

text \<open>
  A streaming reply resolves to a body stream: its chunks and how it closes, if it does.
\<close>

definition POST_api_chat_stream ::
  "config \<Rightarrow> (string list \<times> closing option) promise \<Rightarrow> body
     \<Rightarrow> http_response \<times> upstream_call list" where
  "POST_api_chat_stream cfg upstream b =
     (let imgs = or_empty (images b); history = or_empty (conversation_history b) in
      if or_empty (message b) = [] \<and> length imgs = 0 then (Json_response 400 required, [])
      else
        (let userMessage = stream_userMessage (message b) imgs;
             messages = system_turn # history_turns history @ [user_turn (JStr userMessage)];
             requestBody = request_body (MODEL_NAME cfg) messages True
         in
           ((case upstream of
               Resolved (chunks, fin) \<Rightarrow> Chunked_response (relay chunks fin)
             | Rejected e \<Rightarrow>
                 Json_response 500 (JObj [(''error'', JStr ''Stream setup failed'')])),
            [POST (OLLAMA_BASE_URL cfg @ ''/api/chat'') requestBody])))"

text \<open>
  \<^verbatim>\<open>/api/chat/multimodal\<close> spreads the history as it is and takes the model from the body
  when it names one.
\<close>

definition POST_api_chat_multimodal ::
  "config \<Rightarrow> chat_reply promise \<Rightarrow> body \<Rightarrow> http_response \<times> upstream_call list" where
  "POST_api_chat_multimodal cfg upstream b =
     (let imgs = or_empty (images b); history = or_empty (conversation_history b) in
      if or_empty (message b) = [] \<and> length imgs = 0 then (Json_response 400 required, [])
      else
        (let modelToUse = (if or_empty (model b) \<noteq> [] then or_empty (model b) else MODEL_NAME cfg);
             messages = system_turn # history_turns history
                        @ [user_turn (JArr (multimodal_content (message b) imgs))];
             requestBody = request_body modelToUse messages False
         in
           ((case upstream of
               Resolved r \<Rightarrow>
                 Json_response 200
                   (JObj ([(''response'', JStr (reply_content r)), (''model'', JStr modelToUse)]
                          @ usage_field r
                          @ [(''multimodal'', JBool True),
                             (''images_processed'', JNum (show_nat (length imgs)))]))
             | Rejected e \<Rightarrow>
                 if err_code e = Some ''ECONNREFUSED'' then
                   Json_response 503
                     (JObj [(''error'', JStr ''Ollama is not running''),
                            (''details'', JStr ''Please start Ollama first: ollama serve'')])
                 else if map_option fst (err_response e) = Some 404 then
                   Json_response 404
                     (JObj [(''error'', JStr ''Model not found or not multimodal''),
                            (''details'', JStr ''The model might not support images. Try a multimodal model like LLaVA.'')])
                 else
                   Json_response 500
                     (JObj [(''error'', JStr ''Multimodal chat failed''),
                            (''details'', JStr (err_message e))])),
            [POST (OLLAMA_BASE_URL cfg @ ''/api/chat'') requestBody])))"

text \<open>
  \<^verbatim>\<open>/api/switch-model\<close>: the upstream's list of tags resolves to the names of
  \<^verbatim>\<open>response.data.models\<close>, if the reply has that field.
\<close>

definition supports_images :: "string \<Rightarrow> bool" where
  "supports_images m = (str_includes m ''llava'' \<or> str_includes m ''bakllava'' \<or> str_includes m ''vision'')"

definition POST_api_switch_model ::
  "config \<Rightarrow> string list option promise \<Rightarrow> body \<Rightarrow> http_response \<times> upstream_call list" where
  "POST_api_switch_model cfg upstream b =
     (if or_empty (model b) = [] then
        (Json_response 400 (JObj [(''error'', JStr ''Model name is required'')]), [])
      else
        (let m = or_empty (model b) in
           ((case upstream of
               Resolved ms \<Rightarrow>
                 (let models = or_empty ms; modelExists = (m \<in> set models) in
                  if \<not> modelExists then
                    Json_response 404
                      (JObj [(''error'', JStr (''Model '' @ [CHR 0x27] @ m @ [CHR 0x27] @ '' not found''))])
                  else
                    Json_response 200
                      (JObj [(''success'', JBool True),
                             (''message'', JStr (''Model switched to '' @ m)),
                             (''new_model'', JStr m),
                             (''supports_images'', JBool (supports_images m))]))
             | Rejected e \<Rightarrow>
                 Json_response 500
                   (JObj [(''error'', JStr ''Failed to switch model''),
                          (''details'', JStr (err_message e))])),
            [GET (OLLAMA_BASE_URL cfg @ ''/api/tags'')])))"

section \<open>The server\<close>

text \<open>
  The server as a machine: its state is the configuration, a step handles one request against
  the upstream's answers and gives the next state with the response and the calls made.
  No handler assigns to the configuration.
\<close>

datatype request =
    GET_health
  | POST_chat body
  | POST_chat_stream body
  | POST_chat_multimodal body
  | POST_switch_model body

record upstream =
  api_chat :: "chat_reply promise"
  api_chat_stream :: "(string list \<times> closing option) promise"
  api_tags :: "string list option promise"

fun server :: "config \<Rightarrow> upstream \<Rightarrow> request \<Rightarrow> config \<times> http_response \<times> upstream_call list" where
  "server cfg up GET_health = (cfg, GET_api_health cfg)"
| "server cfg up (POST_chat b) = (cfg, POST_api_chat cfg (api_chat up) b)"
| "server cfg up (POST_chat_stream b) = (cfg, POST_api_chat_stream cfg (api_chat_stream up) b)"
| "server cfg up (POST_chat_multimodal b) = (cfg, POST_api_chat_multimodal cfg (api_chat up) b)"
| "server cfg up (POST_switch_model b) = (cfg, POST_api_switch_model cfg (api_tags up) b)"

section \<open>Notions of the specification\<close>

text \<open>
  The text delta of a frame: the \<^verbatim>\<open>content\<close> of its \<^verbatim>\<open>message\<close>, when the frame is an object,
  its \<^verbatim>\<open>message\<close> is an object and the \<^verbatim>\<open>content\<close> is a non-empty string.
\<close>

fun text_delta :: "json \<Rightarrow> string option" where
  "text_delta (JObj kvs) =
     (case map_of (rev kvs) ''message'' of
        Some (JObj ms) \<Rightarrow>
          (case map_of (rev ms) ''content'' of
             Some (JStr d) \<Rightarrow> if d = [] then None else Some d
           | _ \<Rightarrow> None)
      | _ \<Rightarrow> None)"
| "text_delta v = None"

text \<open>A line carries the text delta \<open>d\<close>: it parses to a frame with that text delta.\<close>

definition carries :: "string \<Rightarrow> string \<Rightarrow> bool" where
  "carries line d =
     (case JSON_parse line of None \<Rightarrow> False | Some data \<Rightarrow> text_delta data = Some d)"

text \<open>The text delta a line carries, the empty text when it carries none.\<close>

definition line_delta :: "string \<Rightarrow> string" where
  "line_delta line =
     (case JSON_parse line of
        None \<Rightarrow> []
      | Some data \<Rightarrow> (case text_delta data of None \<Rightarrow> [] | Some d \<Rightarrow> d))"

text \<open>
  A frame on which the loop body raises: \<^verbatim>\<open>null\<close>, whose \<^verbatim>\<open>message\<close> cannot be read, and a
  frame whose \<^verbatim>\<open>message.content\<close> is truthy and not a string, which \<^verbatim>\<open>res.write\<close> refuses.
\<close>

fun raises :: "json \<Rightarrow> bool" where
  "raises JNull = True"
| "raises (JObj kvs) =
     (case map_of (rev kvs) ''message'' of
        Some (JObj ms) \<Rightarrow>
          (case map_of (rev ms) ''content'' of
             None \<Rightarrow> False
           | Some (JStr s) \<Rightarrow> False
           | Some c \<Rightarrow> truthy c)
      | _ \<Rightarrow> False)"
| "raises v = False"

text \<open>
  A line the loop gets past: a blank one, or one that parses to a frame on which the loop
  body does not raise.
\<close>

definition passes :: "string \<Rightarrow> bool" where
  "passes line =
     (trim_empty line
      \<or> (case JSON_parse line of None \<Rightarrow> False | Some data \<Rightarrow> \<not> raises data))"

text \<open>\<^verbatim>\<open>lines.join('\n')\<close>: the text whose lines, between its newlines, are the given ones.\<close>

fun join_nl :: "string list \<Rightarrow> string" where
  "join_nl [] = []"
| "join_nl [l] = l"
| "join_nl (l # ls) = l @ CHR 0x0A # join_nl ls"

text \<open>
  The line the specification asks for the \<open>i\<close>-th image: \<^verbatim>\<open>Image {i}: {name} ({type})\<close>.
\<close>

definition spec_image_line :: "nat \<Rightarrow> image \<Rightarrow> string" where
  "spec_image_line i img =
     ''Image '' @ show_nat i @ '': '' @ img_name img @ '' ('' @ img_type img @ '')''"

text \<open>
  Example input: the frame the upstream sends for a delta \<open>d\<close> that needs no escaping,
  \<^verbatim>\<open>{"message":{"content":"d"}}\<close>, and the frame that closes a reply,
  \<^verbatim>\<open>{"message":{"content":""},"done":true}\<close>.
\<close>

definition quoted :: "string \<Rightarrow> string" where
  "quoted s = CHR 0x22 # s @ [CHR 0x22]"

definition delta_frame :: "string \<Rightarrow> string" where
  "delta_frame d =
     ''{'' @ quoted ''message'' @ '':{'' @ quoted ''content'' @ '':'' @ quoted d @ ''}}''"

definition done_frame :: string where
  "done_frame =
     ''{'' @ quoted ''message'' @ '':{'' @ quoted ''content'' @ '':'' @ quoted [] @ ''},''
     @ quoted ''done'' @ '':true}''"

text \<open>Example inputs: a configuration with the defaults, images, and answers of the upstream.\<close>

definition ex_config :: config where
  "ex_config = \<lparr>MODEL_NAME = ''gemma3:1b'', OLLAMA_BASE_URL = ''http://localhost:11434''\<rparr>"

definition ex_png :: image where
  "ex_png = \<lparr>img_name = ''a.png'', img_type = ''image/png'', img_data = ''AAAA''\<rparr>"

definition ex_png_other :: image where
  "ex_png_other = \<lparr>img_name = ''a.png'', img_type = ''image/png'', img_data = ''BBBB''\<rparr>"

definition ex_jpg :: image where
  "ex_jpg = \<lparr>img_name = ''b.jpg'', img_type = ''image/jpeg'', img_data = ''BBBB''\<rparr>"

definition ex_reply :: "chat_reply promise" where
  "ex_reply = Resolved \<lparr>reply_content = ''ok'', reply_usage = None\<rparr>"

definition ex_refused :: "'a promise" where
  "ex_refused =
     Rejected \<lparr>err_code = Some ''ECONNREFUSED'', err_response = None,
               err_message = ''connect ECONNREFUSED 127.0.0.1:11434''\<rparr>"

definition ex_upstream :: upstream where
  "ex_upstream =
     \<lparr>api_chat = ex_reply, api_chat_stream = Resolved ([], Some On_end),
      api_tags = Resolved (Some [''gemma3:1b'', ''llava:7b''])\<rparr>"

definition ex_body :: "string option \<Rightarrow> image list option \<Rightarrow> body" where
  "ex_body msg imgs =
     \<lparr>message = msg, images = imgs, conversation_history = None, model = None\<rparr>"

section \<open>Lines and white space\<close>

lemma split_nl_line: "CHR 0x0A \<notin> set l \<Longrightarrow> split_nl (l @ CHR 0x0A # rest) = l # split_nl rest"
  by (induction l) (auto split: list.splits)

lemma trim_empty_head:
  "trim_empty (a # cs) \<Longrightarrow>
   is_ws1 a \<or> a = CHR 0xC2 \<or> a = CHR 0xE1 \<or> a = CHR 0xE2 \<or> a = CHR 0xE3 \<or> a = CHR 0xEF"
  by (cases cs; cases "tl cs") (auto simp: is_ws3_def split: if_splits)

lemma skip_ws_trim_empty:
  "trim_empty l \<Longrightarrow>
   skip_ws l = [] \<or>
   (\<exists>c r. skip_ws l = c # r \<and>
      (c = CHR 0x0B \<or> c = CHR 0x0C \<or> c = CHR 0xC2 \<or> c = CHR 0xE1 \<or> c = CHR 0xE2
       \<or> c = CHR 0xE3 \<or> c = CHR 0xEF))"
proof (induction l)
  case Nil
  then show ?case by simp
next
  case (Cons a cs)
  show ?case
  proof (cases "is_json_ws a")
    case True
    then have "is_ws1 a" by (auto simp: is_json_ws_def is_ws1_def)
    with Cons.prems have "trim_empty cs" by simp
    with Cons.IH True show ?thesis by simp
  next
    case False
    from trim_empty_head [OF Cons.prems] False show ?thesis
      by (auto simp: is_json_ws_def is_ws1_def)
  qed
qed

lemma parse_value_no_start:
  assumes "skip_ws s = c # r"
    and "c = CHR 0x0B \<or> c = CHR 0x0C \<or> c = CHR 0xC2 \<or> c = CHR 0xE1 \<or> c = CHR 0xE2
       \<or> c = CHR 0xE3 \<or> c = CHR 0xEF"
  shows "parse_value n s = None"
proof (cases n)
  case 0
  then show ?thesis by simp
next
  case (Suc m)
  from assms(2) have "c \<noteq> CHR ''{''" "c \<noteq> CHR ''[''" "c \<noteq> CHR 0x22" "c \<noteq> CHR ''-''" "\<not> is_digit c"
    "\<not> starts_with (c # r) ''true''" "\<not> starts_with (c # r) ''false''" "\<not> starts_with (c # r) ''null''"
    by (auto simp: is_digit_def starts_with_def)
  with Suc assms(1) show ?thesis by simp
qed

lemma parse_value_empty: "skip_ws s = [] \<Longrightarrow> parse_value n s = None"
  by (cases n) simp_all

lemma JSON_parse_trim_empty:
  assumes "trim_empty l"
  shows "JSON_parse l = None"
proof -
  have "parse_value n l = None" for n
    using skip_ws_trim_empty [OF assms]
  proof
    assume "skip_ws l = []"
    then show ?thesis by (rule parse_value_empty)
  next
    assume "\<exists>c r. skip_ws l = c # r \<and>
      (c = CHR 0x0B \<or> c = CHR 0x0C \<or> c = CHR 0xC2 \<or> c = CHR 0xE1 \<or> c = CHR 0xE2
       \<or> c = CHR 0xE3 \<or> c = CHR 0xEF)"
    then obtain c r where a: "skip_ws l = c # r"
      and b: "c = CHR 0x0B \<or> c = CHR 0x0C \<or> c = CHR 0xC2 \<or> c = CHR 0xE1 \<or> c = CHR 0xE2
       \<or> c = CHR 0xE3 \<or> c = CHR 0xEF"
      by blast
    show ?thesis by (rule parse_value_no_start [OF a b])
  qed
  then show ?thesis by (simp add: JSON_parse_def)
qed

lemma relay_chunks_independent:
  "written (relay (c # cs) fin) = concat (on_data c) @ written (relay cs fin)"
  by (simp add: relay_def)

lemma image_lines_upt:
  "image_lines k imgs
   = concat (map (\<lambda>i. CHR 0x0A # spec_image_line (k + i + 1) (imgs ! i)) [0..<length imgs])"
proof (induction imgs arbitrary: k)
  case Nil
  then show ?case by simp
next
  case (Cons img imgs)
  have upt: "[0..<length (img # imgs)] = 0 # map Suc [0..<length imgs]"
    by (simp add: upt_conv_Cons map_Suc_upt del: upt_Suc)
  have "image_lines k (img # imgs)
        = (CHR 0x0A # spec_image_line (k + 1) img) @ image_lines (k + 1) imgs"
    by (simp add: spec_image_line_def)
  also have "image_lines (k + 1) imgs
        = concat (map (\<lambda>i. CHR 0x0A # spec_image_line (k + 1 + i + 1) (imgs ! i)) [0..<length imgs])"
    by (rule Cons.IH)
  finally show ?case
    unfolding upt by (simp add: comp_def)
qed

lemma split_nl_plain: "CHR 0x0A \<notin> set l \<Longrightarrow> split_nl l = [l]"
  by (induction l) auto

lemma split_nl_join:
  "ls \<noteq> [] \<Longrightarrow> \<forall>l \<in> set ls. CHR 0x0A \<notin> set l \<Longrightarrow> split_nl (join_nl ls) = ls"
proof (induction ls rule: join_nl.induct)
  case 1
  then show ?case by simp
next
  case (2 l)
  then show ?case by (simp add: split_nl_plain)
next
  case (3 l l' ls)
  then show ?case by (simp add: split_nl_line)
qed

lemma frame_Wrote_iff: "frame data = Wrote d \<longleftrightarrow> text_delta data = Some d"
proof (cases data)
  case (JObj kvs)
  show ?thesis
  proof (cases "map_of (rev kvs) ''message''")
    case None
    with JObj show ?thesis by (simp add: frame_def)
  next
    case (Some m)
    show ?thesis
    proof (cases m)
      case (JObj ms)
      show ?thesis
      proof (cases "map_of (rev ms) ''content''")
        case None
        with \<open>data = JObj kvs\<close> Some \<open>m = JObj ms\<close> show ?thesis by (simp add: frame_def)
      next
        case (Some c)
        with \<open>data = JObj kvs\<close> \<open>map_of (rev kvs) ''message'' = Some m\<close> \<open>m = JObj ms\<close>
        show ?thesis by (cases c) (auto simp: frame_def)
      qed
    qed (use \<open>data = JObj kvs\<close> Some in \<open>simp_all add: frame_def\<close>)
  qed
qed (simp_all add: frame_def)

lemma frame_Threw_iff: "frame data = Threw \<longleftrightarrow> raises data"
proof (cases data)
  case (JObj kvs)
  show ?thesis
  proof (cases "map_of (rev kvs) ''message''")
    case None
    with JObj show ?thesis by (simp add: frame_def)
  next
    case (Some m)
    show ?thesis
    proof (cases m)
      case (JObj ms)
      show ?thesis
      proof (cases "map_of (rev ms) ''content''")
        case None
        with \<open>data = JObj kvs\<close> Some \<open>m = JObj ms\<close> show ?thesis by (simp add: frame_def)
      next
        case (Some c)
        with \<open>data = JObj kvs\<close> \<open>map_of (rev kvs) ''message'' = Some m\<close> \<open>m = JObj ms\<close>
        show ?thesis by (cases c) (auto simp: frame_def)
      qed
    qed (use \<open>data = JObj kvs\<close> Some in \<open>simp_all add: frame_def\<close>)
  qed
qed (simp_all add: frame_def)

lemma frame_quiet:
  assumes "frame data \<noteq> Threw"
  shows "frame data = (case text_delta data of None \<Rightarrow> Nothing | Some d \<Rightarrow> Wrote d)"
proof (cases "text_delta data")
  case None
  have nw: "frame data \<noteq> Wrote d" for d
    by (simp add: frame_Wrote_iff None)
  have "frame data = Nothing"
  proof (cases "frame data")
    case (Wrote x)
    with nw [of x] show ?thesis by simp
  next
    case Nothing
    then show ?thesis .
  next
    case Threw
    with assms show ?thesis by simp
  qed
  with None show ?thesis by simp
next
  case (Some d)
  then have "frame data = Wrote d"
    by (simp add: frame_Wrote_iff)
  with Some show ?thesis by simp
qed

lemma carries_passes:
  assumes "carries l d"
  shows "passes l"
proof -
  from assms obtain data where p: "JSON_parse l = Some data" and t: "text_delta data = Some d"
    by (cases "JSON_parse l") (simp_all add: carries_def)
  from t have "frame data = Wrote d"
    by (simp add: frame_Wrote_iff)
  then have "\<not> raises data"
    by (simp add: frame_Threw_iff [symmetric])
  with p show ?thesis
    by (simp add: passes_def)
qed

lemma line_delta_blank: "trim_empty l \<Longrightarrow> line_delta l = []"
  by (simp add: line_delta_def JSON_parse_trim_empty)

lemma process_lines_passes:
  "\<forall>l \<in> set ls. passes l \<Longrightarrow>
   concat (process_lines (filter (\<lambda>line. \<not> trim_empty line) ls)) = concat (map line_delta ls)"
proof (induction ls)
  case Nil
  then show ?case by simp
next
  case (Cons l ls)
  then have IH: "concat (process_lines (filter (\<lambda>line. \<not> trim_empty line) ls)) = concat (map line_delta ls)"
    by simp
  show ?case
  proof (cases "trim_empty l")
    case True
    with IH show ?thesis by (simp add: line_delta_blank)
  next
    case False
    with Cons.prems obtain data where p: "JSON_parse l = Some data" and "\<not> raises data"
      by (auto simp: passes_def split: option.splits)
    then have q: "frame data \<noteq> Threw"
      by (simp add: frame_Threw_iff)
    from p have ld: "line_delta l = (case text_delta data of None \<Rightarrow> [] | Some d \<Rightarrow> d)"
      by (simp add: line_delta_def)
    from frame_quiet [OF q] p False IH show ?thesis
      by (cases "text_delta data") (simp_all add: ld)
  qed
qed

lemma on_data_lines:
  assumes "toString chunk = join_nl ls" and "\<forall>l \<in> set ls. CHR 0x0A \<notin> set l \<and> passes l"
  shows "concat (on_data chunk) = concat (map line_delta ls)"
proof (cases "ls = []")
  case True
  with assms(1) show ?thesis by (simp add: on_data_def)
next
  case False
  from assms(2) have "\<forall>l \<in> set ls. CHR 0x0A \<notin> set l" by blast
  with False have "split_nl (join_nl ls) = ls" by (rule split_nl_join)
  moreover from assms(2) have "\<forall>l \<in> set ls. passes l" by blast
  ultimately show ?thesis
    unfolding on_data_def assms(1) by (simp add: process_lines_passes)
qed

section \<open>The claims\<close>

text \<open>
  Claim C1, as the code has it. Let every chunk, decoded, be lines joined by newlines (so that
  no line continues in the next chunk), each line blank or a parseable frame on which the
  loop body does not raise. Then the bytes written to the client are the text deltas of the
  lines that carry one, in arrival order, however the lines are grouped into chunks.
\<close>

theorem relay_whole_lines:
  assumes "map toString chunks = map join_nl lss"
    and "\<forall>ls \<in> set lss. \<forall>l \<in> set ls. CHR 0x0A \<notin> set l \<and> passes l"
  shows "written (relay chunks fin) = concat (map line_delta (concat lss))"
  using assms
proof (induction chunks arbitrary: lss)
  case Nil
  then show ?case by (simp add: relay_def)
next
  case (Cons c cs)
  from Cons.prems(1) obtain ls lss' where lss: "lss = ls # lss'"
    and c: "toString c = join_nl ls" and cs: "map toString cs = map join_nl lss'"
    by (cases lss) auto
  from Cons.prems(2) lss have "\<forall>l \<in> set ls. CHR 0x0A \<notin> set l \<and> passes l"
    and rest: "\<forall>ls \<in> set lss'. \<forall>l \<in> set ls. CHR 0x0A \<notin> set l \<and> passes l"
    by simp_all
  with c have "concat (on_data c) = concat (map line_delta ls)"
    by (simp add: on_data_lines)
  moreover from Cons.IH [OF cs rest] have "written (relay cs fin) = concat (map line_delta (concat lss'))" .
  ultimately show ?case
    by (simp add: relay_chunks_independent lss)
qed

theorem relay_whole_lines_witness:
  "written (relay [delta_frame ''Hel'' @ ''\<newline>'' @ delta_frame ''lo'',
                   ''\<newline>  \<newline>'' @ delta_frame ('' a'' @ [CHR 0xFF] @ ''b'') @ ''\<newline>'',
                   done_frame @ ''\<newline>''] (Some On_end))
   = ''Hello a'' @ [CHR 0xEF, CHR 0xBF, CHR 0xBD] @ ''b''"
proof -
  have h1: "map toString [delta_frame ''Hel'' @ ''\<newline>'' @ delta_frame ''lo'',
                          ''\<newline>  \<newline>'' @ delta_frame ('' a'' @ [CHR 0xFF] @ ''b'') @ ''\<newline>'',
                          done_frame @ ''\<newline>'']
            = map join_nl [[delta_frame ''Hel'', delta_frame ''lo''],
                           [[], ''  '', delta_frame ('' a'' @ [CHR 0xEF, CHR 0xBF, CHR 0xBD] @ ''b''), []],
                           [done_frame, []]]"
    by code_simp
  have h2: "\<forall>ls \<in> set [[delta_frame ''Hel'', delta_frame ''lo''],
                         [[], ''  '', delta_frame ('' a'' @ [CHR 0xEF, CHR 0xBF, CHR 0xBD] @ ''b''), []],
                         [done_frame, []]].
              \<forall>l \<in> set ls. CHR 0x0A \<notin> set l \<and> passes l"
    by code_simp
  show ?thesis
    by (rule trans [OF relay_whole_lines [OF h1 h2]]) code_simp
qed

text \<open>
  Claim C1 as stated fails: there is no carry-over buffer. The same two frames, cut at byte
  offset 33 (inside the second line), deliver only the first delta.
\<close>

theorem relay_split_line_counterexample:
  "carries (delta_frame ''a'') ''a'' \<and>
   carries (delta_frame ''b'') ''b'' \<and>
   written (relay [delta_frame ''a'' @ ''\<newline>'' @ delta_frame ''b'' @ ''\<newline>''] (Some On_end))
     = ''ab'' \<and>
   written (relay [take 33 (delta_frame ''a'' @ ''\<newline>'' @ delta_frame ''b'' @ ''\<newline>''),
                   drop 33 (delta_frame ''a'' @ ''\<newline>'' @ delta_frame ''b'' @ ''\<newline>'')]
              (Some On_end))
     = ''a''"
  by code_simp

text \<open>
  Claim C2 at a failing input: a line that is not JSON, followed in the same chunk by a frame
  carrying the delta \<^verbatim>\<open>b\<close>. The \<^verbatim>\<open>catch\<close> lies outside the loop, so the rest of the chunk
  is dropped with the bad line; a later chunk is relayed again.
\<close>

theorem malformed_line_ends_chunk:
  "JSON_parse ''oops'' = None \<and>
   carries (delta_frame ''b'') ''b'' \<and>
   on_data (''oops'' @ ''\<newline>'' @ delta_frame ''b'' @ ''\<newline>'') = [] \<and>
   written (relay [''oops'' @ ''\<newline>'' @ delta_frame ''b'' @ ''\<newline>'',
                   delta_frame ''c'' @ ''\<newline>''] (Some On_end)) = ''c''"
  by code_simp

text \<open>
  Claim C3, for \<^verbatim>\<open>POST /api/chat\<close>. With \<open>N > 0\<close> images the user turn sent upstream is the
  message text followed by the count annotation (or the count annotation alone when there is
  no text), followed by exactly \<open>N\<close> lines \<^verbatim>\<open>Image {i}: {name} ({type})\<close>, \<open>i\<close> from 1 to \<open>N\<close> in
  input order.
\<close>

theorem chat_image_lines:
  assumes "images b = Some imgs" and "imgs \<noteq> []"
  shows "snd (POST_api_chat cfg up b) =
    [POST (OLLAMA_BASE_URL cfg @ ''/api/chat'')
       (request_body (MODEL_NAME cfg)
          (system_turn # history_turns (or_empty (conversation_history b)) @
           [user_turn (JStr
              ((if or_empty (message b) \<noteq> [] then
                  or_empty (message b) @ ''\<newline>\<newline>[User attached '' @ show_nat (length imgs)
                    @ '' image(s). Please respond accordingly.]''
                else
                  ''[User attached '' @ show_nat (length imgs)
                    @ '' image(s). Please describe or analyze these images.]'')
               @ concat (map (\<lambda>i. CHR 0x0A # spec_image_line (i + 1) (imgs ! i))
                           [0..<length imgs])))])
          False)]"
  using assms
  by (simp add: POST_api_chat_def chat_userMessage_def Let_def or_empty_def image_lines_upt)

theorem chat_image_lines_witness:
  "snd (POST_api_chat ex_config ex_reply (ex_body (Some ''hi'') (Some [ex_png, ex_jpg]))) =
     [POST ''http://localhost:11434/api/chat''
        (request_body ''gemma3:1b''
           [system_turn,
            user_turn (JStr (''hi\<newline>\<newline>[User attached 2 image(s). Please respond accordingly.]''
                             @ ''\<newline>Image 1: a.png (image/png)''
                             @ ''\<newline>Image 2: b.jpg (image/jpeg)''))]
           False)]"
proof -
  have h1: "images (ex_body (Some ''hi'') (Some [ex_png, ex_jpg])) = Some [ex_png, ex_jpg]"
    by (simp add: ex_body_def)
  have h2: "[ex_png, ex_jpg] \<noteq> []"
    by simp
  show ?thesis
    by (rule trans [OF chat_image_lines [OF h1 h2]]) code_simp
qed

text \<open>
  Claim C3 as stated fails for the other endpoints that accept images: the stream endpoint
  sends the count annotation only, and the multimodal endpoint sends a list of parts.
\<close>

theorem other_endpoints_no_image_lines_counterexample:
  "snd (POST_api_chat_stream ex_config (Resolved ([], Some On_end))
          (ex_body (Some ''hi'') (Some [ex_png]))) =
     [POST ''http://localhost:11434/api/chat''
        (request_body ''gemma3:1b''
           [system_turn, user_turn (JStr ''hi\<newline>\<newline>[User attached 1 image(s)]'')] True)]
   \<and> spec_image_line 1 ex_png = ''Image 1: a.png (image/png)''
   \<and> \<not> str_includes ''hi\<newline>\<newline>[User attached 1 image(s)]'' (spec_image_line 1 ex_png)
   \<and> snd (POST_api_chat_multimodal ex_config ex_reply (ex_body (Some ''hi'') (Some [ex_png]))) =
     [POST ''http://localhost:11434/api/chat''
        (request_body ''gemma3:1b''
           [system_turn,
            user_turn (JArr [JObj [(''type'', JStr ''text''), (''text'', JStr ''hi'')],
                             JObj [(''type'', JStr ''image''),
                                   (''source'', JStr ''data:image/png;base64,[image_data_here]'')]])]
           False)]"
  by code_simp

text \<open>
  Claim C4, for \<^verbatim>\<open>POST /api/chat\<close> and \<^verbatim>\<open>POST /api/chat/stream\<close>. For a request with a
  non-empty message and no images, the handler makes one upstream call whose messages are the
  system turn with the fixed prompt, the history turns with role and content unchanged and in
  order, and one user turn whose content is the message.
\<close>

theorem chat_messages_exact:
  assumes "message b = Some m" and "m \<noteq> []" and "or_empty (images b) = []"
  shows "snd (POST_api_chat cfg up b) =
    [POST (OLLAMA_BASE_URL cfg @ ''/api/chat'')
       (JObj [(''model'', JStr (MODEL_NAME cfg)),
              (''messages'',
               JArr ([JObj [(''role'', JStr ''system''), (''content'', JStr SYSTEM_PROMPT)]]
                     @ map (\<lambda>t. JObj [(''role'', JStr (role t)), (''content'', JStr (content t))])
                         (or_empty (conversation_history b))
                     @ [JObj [(''role'', JStr ''user''), (''content'', JStr m)]])),
              (''stream'', JBool False),
              (''options'', JObj [(''temperature'', JNum ''0.7''), (''top_p'', JNum ''0.9'')])])]
   \<and> snd (POST_api_chat_stream cfg ups b) =
    [POST (OLLAMA_BASE_URL cfg @ ''/api/chat'')
       (JObj [(''model'', JStr (MODEL_NAME cfg)),
              (''messages'',
               JArr ([JObj [(''role'', JStr ''system''), (''content'', JStr SYSTEM_PROMPT)]]
                     @ map (\<lambda>t. JObj [(''role'', JStr (role t)), (''content'', JStr (content t))])
                         (or_empty (conversation_history b))
                     @ [JObj [(''role'', JStr ''user''), (''content'', JStr m)]])),
              (''stream'', JBool True),
              (''options'', JObj [(''temperature'', JNum ''0.7''), (''top_p'', JNum ''0.9'')])])]"
  using assms
  by (simp add: POST_api_chat_def POST_api_chat_stream_def chat_userMessage_def
      stream_userMessage_def Let_def or_empty_def system_turn_def history_turns_def
      user_turn_def request_body_def)

theorem chat_messages_exact_witness:
  "snd (POST_api_chat ex_config ex_reply
          ((ex_body (Some ''and 3+3?'') None)
             \<lparr>conversation_history :=
                Some [\<lparr>role = ''user'', content = ''2+2?''\<rparr>,
                      \<lparr>role = ''assistant'', content = ''4''\<rparr>]\<rparr>)) =
     [POST ''http://localhost:11434/api/chat''
        (JObj [(''model'', JStr ''gemma3:1b''),
               (''messages'',
                JArr [JObj [(''role'', JStr ''system''), (''content'', JStr SYSTEM_PROMPT)],
                      JObj [(''role'', JStr ''user''), (''content'', JStr ''2+2?'')],
                      JObj [(''role'', JStr ''assistant''), (''content'', JStr ''4'')],
                      JObj [(''role'', JStr ''user''), (''content'', JStr ''and 3+3?'')]]),
               (''stream'', JBool False),
               (''options'', JObj [(''temperature'', JNum ''0.7''), (''top_p'', JNum ''0.9'')])])]
   \<and> snd (POST_api_chat_stream ex_config (Resolved ([], Some On_end))
          ((ex_body (Some ''and 3+3?'') None)
             \<lparr>conversation_history :=
                Some [\<lparr>role = ''user'', content = ''2+2?''\<rparr>,
                      \<lparr>role = ''assistant'', content = ''4''\<rparr>]\<rparr>)) =
     [POST ''http://localhost:11434/api/chat''
        (JObj [(''model'', JStr ''gemma3:1b''),
               (''messages'',
                JArr [JObj [(''role'', JStr ''system''), (''content'', JStr SYSTEM_PROMPT)],
                      JObj [(''role'', JStr ''user''), (''content'', JStr ''2+2?'')],
                      JObj [(''role'', JStr ''assistant''), (''content'', JStr ''4'')],
                      JObj [(''role'', JStr ''user''), (''content'', JStr ''and 3+3?'')]]),
               (''stream'', JBool True),
               (''options'', JObj [(''temperature'', JNum ''0.7''), (''top_p'', JNum ''0.9'')])])]"
proof -
  let ?b = "(ex_body (Some ''and 3+3?'') None)
             \<lparr>conversation_history :=
                Some [\<lparr>role = ''user'', content = ''2+2?''\<rparr>,
                      \<lparr>role = ''assistant'', content = ''4''\<rparr>]\<rparr>"
  have h1: "message ?b = Some ''and 3+3?''"
    by (simp add: ex_body_def)
  have h2: "''and 3+3?'' \<noteq> []"
    by simp
  have h3: "or_empty (images ?b) = []"
    by (simp add: ex_body_def or_empty_def)
  from chat_messages_exact [OF h1 h2 h3, of ex_config ex_reply "Resolved ([], Some On_end)"]
  show ?thesis
    by (simp add: or_empty_def ex_body_def ex_config_def)
qed

text \<open>
  Claim C4 as stated fails on \<^verbatim>\<open>POST /api/chat/multimodal\<close>: for such a request the content
  of the user turn sent upstream is a list with one text part, not the message.
\<close>

theorem multimodal_user_turn_counterexample:
  "snd (POST_api_chat_multimodal ex_config ex_reply (ex_body (Some ''hi'') None)) =
     [POST ''http://localhost:11434/api/chat''
        (JObj [(''model'', JStr ''gemma3:1b''),
               (''messages'',
                JArr [JObj [(''role'', JStr ''system''), (''content'', JStr SYSTEM_PROMPT)],
                      JObj [(''role'', JStr ''user''),
                            (''content'',
                             JArr [JObj [(''type'', JStr ''text''), (''text'', JStr ''hi'')]])]]),
               (''stream'', JBool False),
               (''options'', JObj [(''temperature'', JNum ''0.7''), (''top_p'', JNum ''0.9'')])])]
   \<and> JArr [JObj [(''type'', JStr ''text''), (''text'', JStr ''hi'')]] \<noteq> JStr ''hi''"
  by code_simp

text \<open>
  Claim C5. A body of \<^verbatim>\<open>POST /api/chat\<close> with neither \<^verbatim>\<open>message\<close> nor \<^verbatim>\<open>images\<close> is answered
  with status 400 and an \<^verbatim>\<open>error\<close> field naming the missing fields, and no upstream call is
  made.
\<close>

theorem chat_empty_body_400:
  assumes "message b = None" and "images b = None"
  shows "POST_api_chat cfg up b =
    (Json_response 400 (JObj [(''error'', JStr ''Message or images are required'')]), [])"
  using assms by (simp add: POST_api_chat_def Let_def or_empty_def required_def)

theorem chat_empty_body_400_witness:
  "POST_api_chat ex_config ex_reply (ex_body None None) =
     (Json_response 400 (JObj [(''error'', JStr ''Message or images are required'')]), [])"
proof -
  have h1: "message (ex_body None None) = None"
    by (simp add: ex_body_def)
  have h2: "images (ex_body None None) = None"
    by (simp add: ex_body_def)
  show ?thesis
    by (rule chat_empty_body_400 [OF h1 h2])
qed

text \<open>
  Claim C6 at a failing input: the upstream refuses the connection. \<^verbatim>\<open>POST /api/chat/stream\<close>
  answers 500 after its one call; \<^verbatim>\<open>POST /api/chat\<close> and \<^verbatim>\<open>POST /api/chat/multimodal\<close> answer
  503 on the same input.
\<close>

theorem stream_refused_gives_500:
  "POST_api_chat_stream ex_config ex_refused (ex_body (Some ''hi'') None) =
     (Json_response 500 (JObj [(''error'', JStr ''Stream setup failed'')]),
      [POST ''http://localhost:11434/api/chat''
         (request_body ''gemma3:1b'' [system_turn, user_turn (JStr ''hi'')] True)])
   \<and> POST_api_chat ex_config ex_refused (ex_body (Some ''hi'') None) =
     (Json_response 503
        (JObj [(''error'', JStr ''Ollama is not running. Please start Ollama first.''),
               (''details'', JStr ''Run: ollama serve'')]),
      [POST ''http://localhost:11434/api/chat''
         (request_body ''gemma3:1b'' [system_turn, user_turn (JStr ''hi'')] False)])
   \<and> fst (POST_api_chat_multimodal ex_config ex_refused (ex_body (Some ''hi'') None)) =
     Json_response 503
       (JObj [(''error'', JStr ''Ollama is not running''),
              (''details'', JStr ''Please start Ollama first: ollama serve'')])"
  by code_simp

text \<open>
  Claim C7. When the upstream stream signals an error after streaming has begun, the client
  response is what had been written before, with the stream ended: nothing is added to the
  body.
\<close>

theorem stream_error_closes_silently:
  assumes "or_empty (message b) \<noteq> [] \<or> or_empty (images b) \<noteq> []"
  shows "fst (POST_api_chat_stream cfg (Resolved (chunks, Some On_error)) b)
           = Chunked_response ((relay chunks None)\<lparr>ended := True\<rparr>)
         \<and> written (relay chunks (Some On_error)) = written (relay chunks None)"
  using assms by (auto simp: POST_api_chat_stream_def Let_def relay_def)

theorem stream_error_closes_silently_witness:
  "fst (POST_api_chat_stream ex_config
          (Resolved ([delta_frame ''Hel'' @ ''\<newline>'', delta_frame ''lo'' @ ''\<newline>''],
                     Some On_error))
          (ex_body (Some ''hi'') None))
     = Chunked_response \<lparr>written = ''Hello'', ended = True\<rparr>"
proof -
  have h: "or_empty (message (ex_body (Some ''hi'') None)) \<noteq> []
           \<or> or_empty (images (ex_body (Some ''hi'') None)) \<noteq> []"
    by (simp add: or_empty_def ex_body_def)
  show ?thesis
    by (rule trans [OF stream_error_closes_silently [OF h, THEN conjunct1]]) code_simp
qed

text \<open>
  Claim C8. \<^verbatim>\<open>POST /api/switch-model\<close> answers 200 with \<^verbatim>\<open>success\<close> and \<^verbatim>\<open>new_model\<close> when the
  upstream lists the model and 404 when it does not; either way the configuration is as
  before, so \<^verbatim>\<open>GET /api/health\<close> and \<^verbatim>\<open>POST /api/chat\<close> behave afterwards as they did.
\<close>

theorem switch_model_keeps_configuration:
  assumes "model b = Some m" and "m \<noteq> []" and "api_tags up = Resolved ms"
  shows "(m \<in> set (or_empty ms) \<longrightarrow>
            server cfg up (POST_switch_model b) =
              (cfg,
               Json_response 200
                 (JObj [(''success'', JBool True),
                        (''message'', JStr (''Model switched to '' @ m)),
                        (''new_model'', JStr m),
                        (''supports_images'', JBool (supports_images m))]),
               [GET (OLLAMA_BASE_URL cfg @ ''/api/tags'')]))
       \<and> (m \<notin> set (or_empty ms) \<longrightarrow>
            server cfg up (POST_switch_model b) =
              (cfg,
               Json_response 404
                 (JObj [(''error'', JStr (''Model '' @ [CHR 0x27] @ m @ [CHR 0x27] @ '' not found''))]),
               [GET (OLLAMA_BASE_URL cfg @ ''/api/tags'')]))
       \<and> server (fst (server cfg up (POST_switch_model b))) up' GET_health
           = server cfg up' GET_health
       \<and> server (fst (server cfg up (POST_switch_model b))) up' (POST_chat b')
           = server cfg up' (POST_chat b')"
  using assms by (simp add: POST_api_switch_model_def Let_def or_empty_def)

theorem switch_model_keeps_configuration_witness:
  "server ex_config ex_upstream
     (POST_switch_model ((ex_body None None)\<lparr>model := Some ''llava:7b''\<rparr>)) =
     (ex_config,
      Json_response 200
        (JObj [(''success'', JBool True),
               (''message'', JStr ''Model switched to llava:7b''),
               (''new_model'', JStr ''llava:7b''),
               (''supports_images'', JBool True)]),
      [GET (OLLAMA_BASE_URL ex_config @ ''/api/tags'')])
   \<and> server ex_config ex_upstream
       (POST_switch_model ((ex_body None None)\<lparr>model := Some ''phi3''\<rparr>)) =
     (ex_config,
      Json_response 404
        (JObj [(''error'', JStr (''Model '' @ [CHR 0x27] @ ''phi3'' @ [CHR 0x27] @ '' not found''))]),
      [GET (OLLAMA_BASE_URL ex_config @ ''/api/tags'')])
   \<and> server (fst (server ex_config ex_upstream
                     (POST_switch_model ((ex_body None None)\<lparr>model := Some ''llava:7b''\<rparr>))))
         ex_upstream GET_health
       = server ex_config ex_upstream GET_health
   \<and> server (fst (server ex_config ex_upstream
                     (POST_switch_model ((ex_body None None)\<lparr>model := Some ''llava:7b''\<rparr>))))
         ex_upstream (POST_chat (ex_body (Some ''hi'') None))
       = server ex_config ex_upstream (POST_chat (ex_body (Some ''hi'') None))"
proof -
  let ?b = "(ex_body None None)\<lparr>model := Some ''llava:7b''\<rparr>"
  let ?c = "(ex_body None None)\<lparr>model := Some ''phi3''\<rparr>"
  have h1: "model ?b = Some ''llava:7b''"
    by simp
  have h2: "''llava:7b'' \<noteq> []"
    by simp
  have h3: "api_tags ex_upstream = Resolved (Some [''gemma3:1b'', ''llava:7b''])"
    by (simp add: ex_upstream_def)
  have k1: "model ?c = Some ''phi3''"
    by simp
  have k2: "''phi3'' \<noteq> []"
    by simp
  have m: "''llava:7b'' \<in> set (or_empty (Some [''gemma3:1b'', ''llava:7b'']))"
    by (simp add: or_empty_def)
  have n: "''phi3'' \<notin> set (or_empty (Some [''gemma3:1b'', ''llava:7b'']))"
    by (simp add: or_empty_def)
  have s: "supports_images ''llava:7b''"
    by code_simp
  from switch_model_keeps_configuration
         [OF h1 h2 h3, of ex_config ex_upstream "ex_body (Some ''hi'') None"]
       switch_model_keeps_configuration
         [OF k1 k2 h3, of ex_config ex_upstream "ex_body (Some ''hi'') None"]
       m n s
  show ?thesis by simp
qed

text \<open>
  Claim C9. Two \<^verbatim>\<open>POST /api/chat/multimodal\<close> requests that differ only in the data of their
  images get the same response and make the same upstream call; each image contributes the
  placeholder \<^verbatim>\<open>data:{type};base64,[image_data_here]\<close> and nothing of its data.
\<close>

theorem multimodal_ignores_image_data:
  assumes "map (\<lambda>i. (img_name i, img_type i)) imgs1 = map (\<lambda>i. (img_name i, img_type i)) imgs2"
  shows "POST_api_chat_multimodal cfg up (b\<lparr>images := Some imgs1\<rparr>)
           = POST_api_chat_multimodal cfg up (b\<lparr>images := Some imgs2\<rparr>)
       \<and> (imgs1 \<noteq> [] \<longrightarrow>
            snd (POST_api_chat_multimodal cfg up (b\<lparr>images := Some imgs1\<rparr>)) =
              [POST (OLLAMA_BASE_URL cfg @ ''/api/chat'')
                 (request_body (if or_empty (model b) \<noteq> [] then or_empty (model b) else MODEL_NAME cfg)
                    (system_turn # history_turns (or_empty (conversation_history b)) @
                     [user_turn (JArr
                        ((if or_empty (message b) \<noteq> [] then
                            [JObj [(''type'', JStr ''text''), (''text'', JStr (or_empty (message b)))]]
                          else [])
                         @ map (\<lambda>img. JObj [(''type'', JStr ''image''),
                                  (''source'', JStr (''data:'' @ img_type img @ '';base64,[image_data_here]''))])
                             imgs1))])
                    False)])"
proof -
  from assms have len: "length imgs1 = length imgs2"
    by (rule map_eq_imp_length_eq)
  then have nil: "imgs1 = [] \<longleftrightarrow> imgs2 = []"
    by auto
  have "map snd (map (\<lambda>i. (img_name i, img_type i)) imgs1)
        = map snd (map (\<lambda>i. (img_name i, img_type i)) imgs2)"
    using assms by (rule arg_cong)
  then have types: "map img_type imgs1 = map img_type imgs2"
    by (simp add: comp_def)
  have mc: "multimodal_content msg imgs =
      (if or_empty msg \<noteq> [] then [JObj [(''type'', JStr ''text''), (''text'', JStr (or_empty msg))]]
       else [])
      @ map (\<lambda>t. JObj [(''type'', JStr ''image''),
                        (''source'', JStr (''data:'' @ t @ '';base64,[image_data_here]''))])
          (map img_type imgs)" for msg imgs
    by (simp add: multimodal_content_def comp_def)
  have eq: "multimodal_content (message b) imgs1 = multimodal_content (message b) imgs2"
    by (simp only: mc types)
  have same: "POST_api_chat_multimodal cfg up (b\<lparr>images := Some imgs1\<rparr>)
           = POST_api_chat_multimodal cfg up (b\<lparr>images := Some imgs2\<rparr>)"
    by (simp add: POST_api_chat_multimodal_def Let_def or_empty_def eq len nil
        split: promise.splits)
  have shape: "imgs1 \<noteq> [] \<longrightarrow>
            snd (POST_api_chat_multimodal cfg up (b\<lparr>images := Some imgs1\<rparr>)) =
              [POST (OLLAMA_BASE_URL cfg @ ''/api/chat'')
                 (request_body (if or_empty (model b) \<noteq> [] then or_empty (model b) else MODEL_NAME cfg)
                    (system_turn # history_turns (or_empty (conversation_history b)) @
                     [user_turn (JArr
                        ((if or_empty (message b) \<noteq> [] then
                            [JObj [(''type'', JStr ''text''), (''text'', JStr (or_empty (message b)))]]
                          else [])
                         @ map (\<lambda>img. JObj [(''type'', JStr ''image''),
                                  (''source'', JStr (''data:'' @ img_type img @ '';base64,[image_data_here]''))])
                             imgs1))])
                    False)]"
    by (simp add: POST_api_chat_multimodal_def Let_def or_empty_def multimodal_content_def)
  from same shape show ?thesis by (rule conjI)
qed

theorem multimodal_ignores_image_data_witness:
  "POST_api_chat_multimodal ex_config ex_reply
     ((ex_body (Some ''hi'') None)\<lparr>images := Some [ex_png]\<rparr>)
     = POST_api_chat_multimodal ex_config ex_reply
         ((ex_body (Some ''hi'') None)\<lparr>images := Some [ex_png_other]\<rparr>)
   \<and> snd (POST_api_chat_multimodal ex_config ex_reply
            ((ex_body (Some ''hi'') None)\<lparr>images := Some [ex_png]\<rparr>)) =
     [POST ''http://localhost:11434/api/chat''
        (request_body ''gemma3:1b''
           [system_turn,
            user_turn (JArr [JObj [(''type'', JStr ''text''), (''text'', JStr ''hi'')],
                             JObj [(''type'', JStr ''image''),
                                   (''source'', JStr ''data:image/png;base64,[image_data_here]'')]])]
           False)]"
proof -
  have h: "map (\<lambda>i. (img_name i, img_type i)) [ex_png]
           = map (\<lambda>i. (img_name i, img_type i)) [ex_png_other]"
    by (simp add: ex_png_def ex_png_other_def)
  have n: "[ex_png] \<noteq> []"
    by simp
  note t = multimodal_ignores_image_data [OF h]
  show ?thesis
  proof (rule conjI)
    show "POST_api_chat_multimodal ex_config ex_reply
            ((ex_body (Some ''hi'') None)\<lparr>images := Some [ex_png]\<rparr>)
          = POST_api_chat_multimodal ex_config ex_reply
              ((ex_body (Some ''hi'') None)\<lparr>images := Some [ex_png_other]\<rparr>)"
      by (rule t [THEN conjunct1])
  next
    show "snd (POST_api_chat_multimodal ex_config ex_reply
                 ((ex_body (Some ''hi'') None)\<lparr>images := Some [ex_png]\<rparr>)) =
     [POST ''http://localhost:11434/api/chat''
        (request_body ''gemma3:1b''
           [system_turn,
            user_turn (JArr [JObj [(''type'', JStr ''text''), (''text'', JStr ''hi'')],
                             JObj [(''type'', JStr ''image''),
                                   (''source'', JStr ''data:image/png;base64,[image_data_here]'')]])]
           False)]"
      by (rule trans [OF t [THEN conjunct2, THEN mp, OF n]]) code_simp
  qed
qed

text \<open>
  Claim C10. On each of the three chat endpoints a body whose message is the empty string and
  which has no images is rejected with status 400 without an upstream call, exactly as a body
  without a message is.
\<close>

theorem empty_message_rejected:
  assumes "message b = Some []" and "or_empty (images b) = []"
  shows "POST_api_chat cfg up b =
           (Json_response 400 (JObj [(''error'', JStr ''Message or images are required'')]), [])
       \<and> POST_api_chat_stream cfg ups b =
           (Json_response 400 (JObj [(''error'', JStr ''Message or images are required'')]), [])
       \<and> POST_api_chat_multimodal cfg up b =
           (Json_response 400 (JObj [(''error'', JStr ''Message or images are required'')]), [])
       \<and> POST_api_chat cfg up b = POST_api_chat cfg up (b\<lparr>message := None\<rparr>)
       \<and> POST_api_chat_stream cfg ups b = POST_api_chat_stream cfg ups (b\<lparr>message := None\<rparr>)
       \<and> POST_api_chat_multimodal cfg up b = POST_api_chat_multimodal cfg up (b\<lparr>message := None\<rparr>)"
  using assms
  by (simp add: POST_api_chat_def POST_api_chat_stream_def POST_api_chat_multimodal_def Let_def
      or_empty_def required_def)

theorem empty_message_rejected_witness:
  "POST_api_chat ex_config ex_reply (ex_body (Some []) (Some [])) =
     (Json_response 400 (JObj [(''error'', JStr ''Message or images are required'')]), [])
   \<and> POST_api_chat_stream ex_config (Resolved ([], Some On_end)) (ex_body (Some []) (Some [])) =
     (Json_response 400 (JObj [(''error'', JStr ''Message or images are required'')]), [])
   \<and> POST_api_chat_multimodal ex_config ex_reply (ex_body (Some []) (Some [])) =
     (Json_response 400 (JObj [(''error'', JStr ''Message or images are required'')]), [])"
proof -
  have h1: "message (ex_body (Some []) (Some [])) = Some []"
    by (simp add: ex_body_def)
  have h2: "or_empty (images (ex_body (Some []) (Some []))) = []"
    by (simp add: ex_body_def or_empty_def)
  from empty_message_rejected
         [OF h1 h2, of ex_config ex_reply "Resolved ([], Some On_end)"]
  show ?thesis by simp
qed

end
